theory Spec2Isabelle
  imports Main
begin

section \<open>Exceptions\<close>

text \<open>
  A Python exception is a value. \<open>PyException m\<close> stands for any exception other than
  FastAPI's, carrying the text that \<open>str(e)\<close> gives; \<open>HTTPException code detail\<close> is
  FastAPI's exception, which the framework turns into a response with that status code.
\<close>

datatype error = PyException string | HTTPException nat string

section \<open>Data\<close>

text \<open>The object built by \<open>Credentials(token=..., refresh_token=..., ...)\<close>.\<close>

datatype credentials = Credentials
  (cred_token: "string option")
  (cred_refresh_token: "string option")
  (cred_token_uri: string)
  (cred_client_id: string)
  (cred_client_secret: string)
  (cred_scopes: "string list")

text \<open>The dictionary stored under \<open>tokens['current_user']\<close> (main.py, lines 74-81).\<close>

record token_data =
  token :: "string option"
  refresh_token :: "string option"
  token_uri :: string
  client_id :: string
  client_secret :: string
  scopes :: "string list"

type_synonym header = "string \<times> string"

text \<open>
  A message resource as \<open>messages().get(format='metadata')\<close> returns it:
  \<open>msg['payload']['headers']\<close>, a list of name and value pairs, and the optional
  \<open>sizeEstimate\<close>, read with \<open>msg.get('sizeEstimate', 0)\<close>.
\<close>

record message =
  headers :: "header list"
  sizeEstimate :: "int option"

text \<open>The result of \<open>messages().list\<close>: the identifiers under the optional key \<open>messages\<close>.\<close>

record list_result =
  messages :: "string list option"

text \<open>The resource returned by \<open>messages().send\<close>; the source reads its \<open>id\<close>.\<close>

record sent_message =
  sent_id :: string

record profile =
  emailAddress :: "string option"
  messagesTotal :: "int option"
  threadsTotal :: "int option"

record datetime =
  hour :: int

section \<open>External collaborators\<close>

text \<open>
  The OAuth flow, the credential object's properties, the mail service and the library
  functions the source calls are parameters of the model: the source consumes them and
  does not define them. A call that can raise returns a sum, \<open>Inl\<close> the exception.
  \<^item> \<open>fetch_token code\<close>: \<open>flow.fetch_token(code=code)\<close> followed by \<open>flow.credentials\<close>;
  \<^item> \<open>valid\<close>, \<open>expired\<close>: the properties of the credential object;
  \<^item> \<open>refresh\<close>: \<open>credentials.refresh(Request())\<close>, giving the object after the call;
  \<^item> \<open>http_exception_str code detail\<close>: \<open>str(e)\<close> of an \<open>HTTPException\<close>;
  \<^item> \<open>build\<close>: \<open>build('gmail', 'v1', credentials=credentials)\<close>;
  \<^item> \<open>get_profile\<close>: \<open>service.users().getProfile(userId='me').execute()\<close>;
  \<^item> \<open>window_query days\<close>: the query string of lines 14-17 of gmail_utils.py, built
    from the clock and the date arithmetic;
  \<^item> \<open>messages_list q n\<close>, \<open>messages_get id\<close>, \<open>messages_send raw\<close>: the three calls on
    \<open>service.users().messages()\<close>;
  \<^item> \<open>strptime s fmt\<close>: \<open>datetime.strptime\<close>, \<open>None\<close> when it raises \<open>ValueError\<close>;
  \<^item> \<open>encode_message to subject body\<close>: the \<open>MIMEText\<close> message with the two headers
    set, serialised and base64url-encoded (lines 109-115); the library raises on some
    inputs, for instance from \<open>as_bytes\<close> on a header value that embeds a header line.
\<close>

record env =
  fetch_token :: "string \<Rightarrow> error + credentials"
  valid :: "credentials \<Rightarrow> bool"
  expired :: "credentials \<Rightarrow> bool"
  refresh :: "credentials \<Rightarrow> error + credentials"
  http_exception_str :: "nat \<Rightarrow> string \<Rightarrow> string"
  build :: "credentials \<Rightarrow> error + unit"
  get_profile :: "credentials \<Rightarrow> error + profile"
  window_query :: "int \<Rightarrow> error + string"
  messages_list :: "string \<Rightarrow> nat \<Rightarrow> error + list_result"
  messages_get :: "string \<Rightarrow> error + message"
  messages_send :: "string \<Rightarrow> error + sent_message"
  strptime :: "string \<Rightarrow> string \<Rightarrow> datetime option"
  encode_message :: "string \<Rightarrow> string \<Rightarrow> string \<Rightarrow> error + string"

text \<open>\<open>str(e)\<close>.\<close>

fun str_of :: "env \<Rightarrow> error \<Rightarrow> string" where
  "str_of env (PyException m) = m"
| "str_of env (HTTPException code detail) = http_exception_str env code detail"

text \<open>Python's truth value of an optional string: \<open>None\<close> and \<open>''\<close> are false.\<close>

fun truthy :: "string option \<Rightarrow> bool" where
  "truthy None = False"
| "truthy (Some s) = (s \<noteq> [])"

section \<open>State\<close>

text \<open>
  The process state is the module-level dictionary \<open>tokens\<close>; the model also records the
  calls made to the remote provider, in order.
\<close>

datatype remote_call =
    FetchToken string
  | Refresh
  | GetProfile
  | MessagesGet string
  | MessagesSend string

record world =
  tokens :: "string \<rightharpoonup> token_data"
  calls :: "remote_call list"

section \<open>main.py\<close>

subsection \<open>The callback handlers\<close>

text \<open>The first definition of \<open>google_auth_callback\<close> (lines 67-91).\<close>

definition google_auth_callback ::
  "env \<Rightarrow> string \<Rightarrow> world \<Rightarrow> (error + (string \<times> string option) list) \<times> world" where
  "google_auth_callback env code w =
     (let w1 = w\<lparr>calls := calls w @ [FetchToken code]\<rparr> in
      case fetch_token env code of
        Inl e \<Rightarrow>
          (Inl (HTTPException 400 (''Error during authentication: '' @ str_of env e)), w1)
      | Inr credentials \<Rightarrow>
          (let token_data = \<lparr>token = cred_token credentials,
                              refresh_token = cred_refresh_token credentials,
                              token_uri = cred_token_uri credentials,
                              client_id = cred_client_id credentials,
                              client_secret = cred_client_secret credentials,
                              scopes = cred_scopes credentials\<rparr>;
               w2 = w1\<lparr>tokens := (tokens w1)(''current_user'' \<mapsto> token_data)\<rparr>
           in (Inr [(''access_token'', cred_token credentials),
                    (''refresh_token'', cred_refresh_token credentials)], w2)))"

text \<open>The second definition under the same name and route (lines 157-167).\<close>

definition google_auth_callback_2 ::
  "env \<Rightarrow> string \<Rightarrow> world \<Rightarrow> (error + (string \<times> string option) list) \<times> world" where
  "google_auth_callback_2 env code w =
     (let w1 = w\<lparr>calls := calls w @ [FetchToken code]\<rparr> in
      case fetch_token env code of
        Inl e \<Rightarrow>
          (Inl (HTTPException 400 (''Error during authentication: '' @ str_of env e)), w1)
      | Inr credentials \<Rightarrow> (Inr [(''access_token'', cred_token credentials)], w1))"

text \<open>
  The GET routes that take a \<open>code\<close>, in the order the decorators register them. The
  framework serves a request with the first route whose path matches, and answers 404
  when none does.
\<close>

definition code_routes ::
  "(string \<times> (env \<Rightarrow> string \<Rightarrow> world \<Rightarrow> (error + (string \<times> string option) list) \<times> world)) list"
  where
  "code_routes = [(''/auth/google/callback'', google_auth_callback),
                  (''/auth/google/callback'', google_auth_callback_2)]"

definition handle_get ::
  "env \<Rightarrow> string \<Rightarrow> string \<Rightarrow> world \<Rightarrow> (error + (string \<times> string option) list) \<times> world" where
  "handle_get env path code w =
     (case map_of code_routes path of
        None \<Rightarrow> (Inl (HTTPException 404 ''Not Found''), w)
      | Some handler \<Rightarrow> handler env code w)"

subsection \<open>Credential resolution\<close>

text \<open>
  The body of the \<open>try\<close> of \<open>get_credentials\<close> (lines 95-120). The update of line 118
  writes the \<open>token\<close> key of the stored dictionary.
\<close>

definition get_credentials_body :: "env \<Rightarrow> world \<Rightarrow> (error + credentials) \<times> world" where
  "get_credentials_body env w =
     (case tokens w ''current_user'' of
        None \<Rightarrow> (Inl (HTTPException 401 ''No credentials found''), w)
      | Some token_data \<Rightarrow>
          (let credentials = Credentials (token token_data) (refresh_token token_data)
                               (token_uri token_data) (client_id token_data)
                               (client_secret token_data) (scopes token_data)
           in if \<not> valid env credentials then
                (if expired env credentials \<and> truthy (cred_refresh_token credentials) then
                   (let w1 = w\<lparr>calls := calls w @ [Refresh]\<rparr> in
                    case refresh env credentials of
                      Inl e \<Rightarrow> (Inl e, w1)
                    | Inr credentials' \<Rightarrow>
                        (Inr credentials',
                         w1\<lparr>tokens := (tokens w1)(''current_user'' \<mapsto>
                                 token_data\<lparr>token := cred_token credentials'\<rparr>)\<rparr>))
                 else (Inr credentials, w))
              else (Inr credentials, w)))"

text \<open>\<open>get_credentials\<close>: the body under its \<open>except Exception\<close> (lines 121-125).\<close>

definition get_credentials :: "env \<Rightarrow> world \<Rightarrow> (error + credentials) \<times> world" where
  "get_credentials env w =
     (case get_credentials_body env w of
        (Inl e, w') \<Rightarrow> (Inl (HTTPException 401 (''Invalid credentials: '' @ str_of env e)), w')
      | (Inr credentials, w') \<Rightarrow> (Inr credentials, w'))"

subsection \<open>The verification endpoint\<close>

record verify_response =
  resp_valid :: bool
  resp_email :: "string option"
  resp_messages_total :: int
  resp_threads_total :: int

text \<open>
  \<open>verify_token\<close> (lines 131-146). The dependency \<open>get_credentials\<close> runs first; when it
  raises, the framework answers with its exception and the handler does not run.
\<close>

definition verify_token :: "env \<Rightarrow> world \<Rightarrow> (error + verify_response) \<times> world" where
  "verify_token env w =
     (case get_credentials env w of
        (Inl e, w') \<Rightarrow> (Inl e, w')
      | (Inr credentials, w') \<Rightarrow>
          (case build env credentials of
             Inl e \<Rightarrow>
               (Inl (HTTPException 401 (''Token verification failed: '' @ str_of env e)), w')
           | Inr service \<Rightarrow>
               (let w1 = w'\<lparr>calls := calls w' @ [GetProfile]\<rparr> in
                case get_profile env credentials of
                  Inl e \<Rightarrow>
                    (Inl (HTTPException 401
                           (''Token verification failed: '' @ str_of env e)), w1)
                | Inr profile \<Rightarrow>
                    (Inr \<lparr>resp_valid = True,
                          resp_email = emailAddress profile,
                          resp_messages_total =
                            (case messagesTotal profile of None \<Rightarrow> 0 | Some n \<Rightarrow> n),
                          resp_threads_total =
                            (case threadsTotal profile of None \<Rightarrow> 0 | Some n \<Rightarrow> n)\<rparr>,
                     w1))))"

section \<open>utils/gmail_utils.py\<close>

subsection \<open>Dictionaries\<close>

text \<open>
  A Python dictionary keeps its keys in insertion order, and \<open>get_top_senders\<close> sorts
  the items stably, so the order is part of the result: a dictionary is a list of
  items. \<open>dict_get d k v\<close> is \<open>d.get(k, v)\<close>; \<open>dict_set d k v\<close> is \<open>d[k] = v\<close>, which
  overwrites in place or appends.
\<close>

fun dict_get :: "('k \<times> 'v) list \<Rightarrow> 'k \<Rightarrow> 'v \<Rightarrow> 'v" where
  "dict_get [] k v = v"
| "dict_get ((k', v') # d) k v = (if k' = k then v' else dict_get d k v)"

fun dict_set :: "('k \<times> 'v) list \<Rightarrow> 'k \<Rightarrow> 'v \<Rightarrow> ('k \<times> 'v) list" where
  "dict_set [] k v = [(k, v)]"
| "dict_set ((k', v') # d) k v = (if k' = k then (k', v) # d else (k', v') # dict_set d k v)"

subsection \<open>The metrics report\<close>

record size_distribution =
  small :: int
  medium :: int
  large :: int

record metrics =
  total_emails :: int
  senders :: "(string \<times> int) list"
  subjects :: "(string \<times> int) list"
  time_distribution :: "(int \<times> int) list"
  email_size_distribution :: size_distribution

text \<open>The header loop of lines 52-58, on the triple (date, sender, subject).\<close>

fun scan_header ::
  "header \<Rightarrow> string option \<times> string option \<times> string option
     \<Rightarrow> string option \<times> string option \<times> string option" where
  "scan_header (name, val) (date, sender, subject) =
     (if name = ''From'' then (date, Some val, subject)
      else if name = ''Subject'' then (date, sender, Some val)
      else if name = ''Date'' then (Some val, sender, subject)
      else (date, sender, subject))"

text \<open>Lines 60-61.\<close>

definition count_sender :: "string option \<Rightarrow> metrics \<Rightarrow> metrics" where
  "count_sender sender m =
     (case sender of
        None \<Rightarrow> m
      | Some s \<Rightarrow>
          if s \<noteq> [] then m\<lparr>senders := dict_set (senders m) s (dict_get (senders m) s 0 + 1)\<rparr>
          else m)"

text \<open>Lines 63-64.\<close>

definition count_subject :: "string option \<Rightarrow> metrics \<Rightarrow> metrics" where
  "count_subject subject m =
     (case subject of
        None \<Rightarrow> m
      | Some s \<Rightarrow>
          if s \<noteq> [] then m\<lparr>subjects := dict_set (subjects m) s (dict_get (subjects m) s 0 + 1)\<rparr>
          else m)"

text \<open>Lines 66-72: the \<open>ValueError\<close> of \<open>strptime\<close> is caught and dropped.\<close>

definition count_hour :: "env \<Rightarrow> string option \<Rightarrow> metrics \<Rightarrow> metrics" where
  "count_hour env date m =
     (case date of
        None \<Rightarrow> m
      | Some d \<Rightarrow>
          if d \<noteq> [] then
            (case strptime env d ''%a, %d %b %Y %H:%M:%S %z'' of
               None \<Rightarrow> m
             | Some dt \<Rightarrow>
                 m\<lparr>time_distribution :=
                     dict_set (time_distribution m) (hour dt)
                       (dict_get (time_distribution m) (hour dt) 0 + 1)\<rparr>)
          else m)"

text \<open>Lines 75-81.\<close>

definition count_size :: "message \<Rightarrow> metrics \<Rightarrow> metrics" where
  "count_size msg m =
     (let size = (case sizeEstimate msg of None \<Rightarrow> 0 | Some n \<Rightarrow> n);
          d = email_size_distribution m
      in if size < 1024 * 1024 then m\<lparr>email_size_distribution := d\<lparr>small := small d + 1\<rparr>\<rparr>
         else if size < 5 * 1024 * 1024 then
           m\<lparr>email_size_distribution := d\<lparr>medium := medium d + 1\<rparr>\<rparr>
         else m\<lparr>email_size_distribution := d\<lparr>large := large d + 1\<rparr>\<rparr>)"

text \<open>The body of the loop over the messages, after the fetch (lines 47-81).\<close>

definition process_message :: "env \<Rightarrow> metrics \<Rightarrow> message \<Rightarrow> metrics" where
  "process_message env m msg =
     (case fold scan_header (headers msg) (None, None, None) of
        (date, sender, subject) \<Rightarrow>
          count_size msg (count_hour env date (count_subject subject (count_sender sender m))))"

text \<open>The loop of lines 40-81: a failing fetch leaves the loop.\<close>

fun process_messages :: "env \<Rightarrow> string list \<Rightarrow> metrics \<Rightarrow> error + metrics" where
  "process_messages env [] m = Inr m"
| "process_messages env (i # ids) m =
     (case messages_get env i of
        Inl e \<Rightarrow> Inl e
      | Inr msg \<Rightarrow> process_messages env ids (process_message env m msg))"

text \<open>The \<open>try\<close> block of \<open>get_email_metrics\<close> (lines 20-83).\<close>

definition get_email_metrics_body :: "env \<Rightarrow> string \<Rightarrow> error + metrics" where
  "get_email_metrics_body env query =
     (case messages_list env query 500 of
        Inl e \<Rightarrow> Inl e
      | Inr results \<Rightarrow>
          (let msgs = (case messages results of None \<Rightarrow> [] | Some ms \<Rightarrow> ms);
               metrics = \<lparr>total_emails = int (length msgs),
                           senders = [],
                           subjects = [],
                           time_distribution = [],
                           email_size_distribution = \<lparr>small = 0, medium = 0, large = 0\<rparr>\<rparr>
           in process_messages env msgs metrics))"

text \<open>
  \<open>get_email_metrics\<close> (lines 12-86). The query is computed before the \<open>try\<close>, so its
  exception is not wrapped.
\<close>

definition get_email_metrics :: "env \<Rightarrow> int \<Rightarrow> error + metrics" where
  "get_email_metrics env days =
     (case window_query env days of
        Inl e \<Rightarrow> Inl e
      | Inr query \<Rightarrow>
          (case get_email_metrics_body env query of
             Inl e \<Rightarrow> Inl (PyException (''Error fetching email metrics: '' @ str_of env e))
           | Inr metrics \<Rightarrow> Inr metrics))"

subsection \<open>Top senders\<close>

record sender_count =
  sender :: string
  count :: int

text \<open>
  \<open>sorted(items, key=key, reverse=True)\<close>: a stable sort in which items with equal keys
  keep their order. The list is reversed, sorted stably in ascending order, and
  reversed again.
\<close>

definition sorted_reverse :: "('a \<Rightarrow> int) \<Rightarrow> 'a list \<Rightarrow> 'a list" where
  "sorted_reverse key xs = rev (sort_key key (rev xs))"

text \<open>\<open>get_top_senders\<close> (lines 88-99).\<close>

definition get_top_senders :: "env \<Rightarrow> int \<Rightarrow> error + sender_count list" where
  "get_top_senders env days =
     (case get_email_metrics env days of
        Inl e \<Rightarrow> Inl e
      | Inr metrics \<Rightarrow>
          Inr (map (\<lambda>(s, c). \<lparr>sender = s, count = c\<rparr>)
                 (take 10 (sorted_reverse snd (senders metrics)))))"

subsection \<open>Sending and replying\<close>

record send_result =
  message_id :: string
  status :: string

text \<open>
  \<open>send_email\<close> (lines 106-127). Building the message and the remote call are both
  inside the \<open>try\<close>; the source makes no check of \<open>to\<close>, \<open>subject\<close> or \<open>body\<close> of its own.
\<close>

definition send_email ::
  "env \<Rightarrow> string \<Rightarrow> string \<Rightarrow> string \<Rightarrow> world \<Rightarrow> (error + send_result) \<times> world" where
  "send_email env to subject body w =
     (case encode_message env to subject body of
        Inl e \<Rightarrow> (Inl (PyException (''Error sending email: '' @ str_of env e)), w)
      | Inr raw_message \<Rightarrow>
          (let w1 = w\<lparr>calls := calls w @ [MessagesSend raw_message]\<rparr> in
           case messages_send env raw_message of
             Inl e \<Rightarrow> (Inl (PyException (''Error sending email: '' @ str_of env e)), w1)
           | Inr send_message \<Rightarrow>
               (Inr \<lparr>message_id = sent_id send_message, status = ''sent''\<rparr>, w1)))"

text \<open>
  \<open>startswith\<close>, and the header loop of \<open>reply_to_email\<close> (lines 144-152) on the triple
  (to, subject, original_subject).
\<close>

definition startswith :: "string \<Rightarrow> string \<Rightarrow> bool" where
  "startswith s p = (take (length p) s = p)"

fun reply_header ::
  "header \<Rightarrow> string option \<times> string option \<times> string option
     \<Rightarrow> string option \<times> string option \<times> string option" where
  "reply_header (name, val) (to, subject, original_subject) =
     (if name = ''From'' then (Some val, subject, original_subject)
      else if name = ''Subject'' then
        (if \<not> startswith val ''Re: '' then (to, Some (''Re: '' @ val), Some val)
         else (to, Some val, Some val))
      else (to, subject, original_subject))"

text \<open>The \<open>try\<close> block of \<open>reply_to_email\<close> (lines 132-157).\<close>

definition reply_to_email_body ::
  "env \<Rightarrow> string \<Rightarrow> string \<Rightarrow> world \<Rightarrow> (error + send_result) \<times> world" where
  "reply_to_email_body env message_id' reply_body w =
     (let w1 = w\<lparr>calls := calls w @ [MessagesGet message_id']\<rparr> in
      case messages_get env message_id' of
        Inl e \<Rightarrow> (Inl e, w1)
      | Inr original \<Rightarrow>
          (case fold reply_header (headers original) (None, None, None) of
             (Some to, Some subject, original_subject) \<Rightarrow>
               if \<not> to \<noteq> [] \<or> \<not> subject \<noteq> [] then
                 (Inl (PyException ''Could not determine recipient or subject''), w1)
               else send_email env to subject reply_body w1
           | _ \<Rightarrow> (Inl (PyException ''Could not determine recipient or subject''), w1)))"

text \<open>\<open>reply_to_email\<close> (lines 129-160).\<close>

definition reply_to_email ::
  "env \<Rightarrow> string \<Rightarrow> string \<Rightarrow> world \<Rightarrow> (error + send_result) \<times> world" where
  "reply_to_email env message_id' reply_body w =
     (case reply_to_email_body env message_id' reply_body w of
        (Inl e, w') \<Rightarrow> (Inl (PyException (''Error replying to email: '' @ str_of env e)), w')
      | (Inr r, w') \<Rightarrow> (Inr r, w'))"

subsection \<open>The send endpoint\<close>

record EmailRequest =
  req_to :: string
  req_subject :: string
  req_body :: string

text \<open>The endpoint \<open>send_email\<close> of main.py (lines 190-203).\<close>

definition send_email_endpoint ::
  "env \<Rightarrow> EmailRequest \<Rightarrow> world \<Rightarrow> (error + send_result) \<times> world" where
  "send_email_endpoint env request w =
     (case get_credentials env w of
        (Inl e, w') \<Rightarrow> (Inl e, w')
      | (Inr credentials, w') \<Rightarrow>
          (case build env credentials of
             Inl e \<Rightarrow> (Inl (HTTPException 500 (''Error sending email: '' @ str_of env e)), w')
           | Inr service \<Rightarrow>
               (case send_email env (req_to request) (req_subject request)
                       (req_body request) w' of
                  (Inl e, w'') \<Rightarrow>
                    (Inl (HTTPException 500 (''Error sending email: '' @ str_of env e)), w'')
                | (Inr result, w'') \<Rightarrow> (Inr result, w''))))"

section \<open>Properties of a report\<close>

text \<open>The identifiers of a list result: \<open>results.get('messages', [])\<close>.\<close>

definition listed :: "list_result \<Rightarrow> string list" where
  "listed results = (case messages results of None \<Rightarrow> [] | Some ms \<Rightarrow> ms)"

text \<open>Every key of \<open>time_distribution\<close> is an hour of the day.\<close>

definition hours_ok :: "metrics \<Rightarrow> bool" where
  "hours_ok m = (\<forall>k \<in> fst ` set (time_distribution m). 0 \<le> k \<and> k \<le> 23)"

text \<open>
  What the library promises of \<open>datetime.strptime\<close>: the \<open>hour\<close> of a parsed value is in
  \<open>range(24)\<close>.
\<close>

definition strptime_contract :: "env \<Rightarrow> bool" where
  "strptime_contract env =
     (\<forall>s fmt dt. strptime env s fmt = Some dt \<longrightarrow> 0 \<le> hour dt \<and> hour dt \<le> 23)"

text \<open>
  The reply subject in the spec's words: the original subject prefixed with \<open>Re: \<close>
  unless it already starts with that literal.
\<close>

definition expected_reply_subject :: "string \<Rightarrow> string" where
  "expected_reply_subject s = (if startswith s ''Re: '' then s else ''Re: '' @ s)"

section \<open>A test double\<close>

text \<open>
  A concrete environment and concrete states, on which the model is evaluated: an
  authorization code that is accepted and one that is not, a credential object that is
  expired, a refresh that answers with a new access token, a mailbox of four messages,
  and a message builder that raises on a subject holding a line feed, as the library's
  check for an embedded header does.
\<close>

definition test_message :: "string \<Rightarrow> error + message" where
  "test_message i =
     (if i = ''m1'' then
        Inr \<lparr>headers = [(''From'', ''ann@example.org''), (''Subject'', ''Hello''),
                         (''Date'', ''Mon, 01 Jan 2024 10:15:00 +0000'')],
              sizeEstimate = Some 5242880\<rparr>
      else if i = ''m2'' then
        Inr \<lparr>headers = [(''From'', ''bob@example.org''), (''Subject'', ''Re: Hello''),
                         (''Date'', ''2024-01-01 11:00'')],
              sizeEstimate = Some 1048575\<rparr>
      else if i = ''m3'' then
        Inr \<lparr>headers = [(''From'', ''bob@example.org''), (''Subject'', ''RE: Hello''),
                         (''Date'', ''Tue, 02 Jan 2024 23:59:59 +0100'')],
              sizeEstimate = None\<rparr>
      else if i = ''m4'' then
        Inr \<lparr>headers = [(''Subject'', ''no sender'')], sizeEstimate = Some 5242881\<rparr>
      else Inl (PyException ''Not Found''))"

definition test_strptime :: "string \<Rightarrow> string \<Rightarrow> datetime option" where
  "test_strptime s fmt =
     (if s = ''Mon, 01 Jan 2024 10:15:00 +0000'' then Some \<lparr>hour = 10\<rparr>
      else if s = ''Tue, 02 Jan 2024 23:59:59 +0100'' then Some \<lparr>hour = 23\<rparr>
      else None)"

definition test_env :: env where
  "test_env =
     \<lparr>fetch_token = (\<lambda>code.
          if code = ''good'' then
            Inr (Credentials (Some ''at1'') (Some ''rt1'') ''https://oauth2.googleapis.com/token''
                   ''id'' ''secret'' [''https://www.googleapis.com/auth/gmail.send''])
          else Inl (PyException ''invalid_grant'')),
      valid = (\<lambda>c. False),
      expired = (\<lambda>c. True),
      refresh = (\<lambda>c. Inr (Credentials (Some ''at2'') (Some ''rt2'') (cred_token_uri c)
                              (cred_client_id c) (cred_client_secret c) (cred_scopes c))),
      http_exception_str = (\<lambda>code detail. detail),
      build = (\<lambda>c. Inr ()),
      get_profile = (\<lambda>c. Inl (PyException ''unauthorized'')),
      window_query = (\<lambda>days. Inr ''after:2024/01/01 before:2024/01/31''),
      messages_list = (\<lambda>q n. Inr \<lparr>messages = Some (take n [''m1'', ''m2'', ''m3'', ''m4''])\<rparr>),
      messages_get = test_message,
      messages_send = (\<lambda>raw. if raw = [] then Inl (PyException ''empty'')
                              else Inr \<lparr>sent_id = ''s1''\<rparr>),
      strptime = test_strptime,
      encode_message = (\<lambda>to subject body.
          if CHR 0x0A \<in> set subject then
            Inl (PyException ''header value appears to contain an embedded header'')
          else Inr (to @ ''|'' @ subject @ ''|'' @ body))\<rparr>"

definition stored_no_refresh :: token_data where
  "stored_no_refresh =
     \<lparr>token = Some ''at1'', refresh_token = None,
      token_uri = ''https://oauth2.googleapis.com/token'', client_id = ''id'',
      client_secret = ''secret'', scopes = [''https://www.googleapis.com/auth/gmail.send'']\<rparr>"

definition stored_with_refresh :: token_data where
  "stored_with_refresh = stored_no_refresh\<lparr>refresh_token := Some ''rt1''\<rparr>"

definition subject_with_header :: string where
  "subject_with_header = ''a'' @ [CHR 0x0A] @ ''Bcc: x@example.org''"

definition empty_world :: world where
  "empty_world = \<lparr>tokens = Map.empty, calls = []\<rparr>"

definition world_no_refresh :: world where
  "world_no_refresh = \<lparr>tokens = [''current_user'' \<mapsto> stored_no_refresh], calls = []\<rparr>"

definition world_with_refresh :: world where
  "world_with_refresh = \<lparr>tokens = [''current_user'' \<mapsto> stored_with_refresh], calls = []\<rparr>"

section \<open>Credential resolution\<close>

lemma get_credentials_body_unchanged:
  assumes "tokens w ''current_user'' = Some td"
    and "c = Credentials (token td) (refresh_token td) (token_uri td) (client_id td)
               (client_secret td) (scopes td)"
    and "valid env c \<or> \<not> expired env c \<or> \<not> truthy (refresh_token td)"
  shows "get_credentials_body env w = (Inr c, w)"
  using assms by (auto simp: get_credentials_body_def Let_def)

lemma get_credentials_body_refreshed:
  assumes "tokens w ''current_user'' = Some td"
    and "c = Credentials (token td) (refresh_token td) (token_uri td) (client_id td)
               (client_secret td) (scopes td)"
    and "\<not> valid env c" and "expired env c" and "truthy (refresh_token td)"
    and "refresh env c = Inr c'"
  shows "get_credentials_body env w =
           (Inr c', \<lparr>tokens = (tokens w)(''current_user'' \<mapsto> td\<lparr>token := cred_token c'\<rparr>),
                     calls = calls w @ [Refresh]\<rparr>)"
  using assms by (auto simp: get_credentials_body_def Let_def)

text \<open>
  C1, as the code has it. The source has no branch that raises for a credential that
  cannot be refreshed: when the stored credential is expired and has no refresh token
  (or an empty one), \<open>get_credentials\<close> returns the credential object built from the
  stored dictionary, and neither the dictionary nor the list of remote calls changes.
  The same holds whenever the credential is not expired.
\<close>

theorem expired_without_refresh_token_is_returned:
  assumes "tokens w ''current_user'' = Some td"
    and "c = Credentials (token td) (refresh_token td) (token_uri td) (client_id td)
               (client_secret td) (scopes td)"
    and "\<not> expired env c \<or> \<not> truthy (refresh_token td)"
  shows "get_credentials env w = (Inr c, w)"
  using assms by (simp add: get_credentials_def get_credentials_body_unchanged)

theorem expired_without_refresh_token_is_returned_witness:
  "tokens world_no_refresh ''current_user'' = Some stored_no_refresh
   \<and> \<not> truthy (refresh_token stored_no_refresh)
   \<and> get_credentials test_env world_no_refresh =
       (Inr (Credentials (Some ''at1'') None ''https://oauth2.googleapis.com/token'' ''id''
               ''secret'' [''https://www.googleapis.com/auth/gmail.send'']), world_no_refresh)"
proof -
  have h1: "tokens world_no_refresh ''current_user'' = Some stored_no_refresh"
    by (simp add: world_no_refresh_def)
  have h2: "Credentials (Some ''at1'') None ''https://oauth2.googleapis.com/token'' ''id''
               ''secret'' [''https://www.googleapis.com/auth/gmail.send''] =
            Credentials (token stored_no_refresh) (refresh_token stored_no_refresh)
              (token_uri stored_no_refresh) (client_id stored_no_refresh)
              (client_secret stored_no_refresh) (scopes stored_no_refresh)"
    by (simp add: stored_no_refresh_def)
  have h3: "\<not> truthy (refresh_token stored_no_refresh)"
    by (simp add: stored_no_refresh_def)
  show ?thesis
    using h1 h3 expired_without_refresh_token_is_returned [OF h1 h2 disjI2 [OF h3], of test_env]
    by simp
qed

text \<open>
  C1, as the spec states it, fails: the stored credential below is expired and has no
  refresh token, and \<open>get_credentials\<close> returns it instead of failing.
\<close>

theorem expired_without_refresh_token_counterexample:
  "expired test_env (Credentials (Some ''at1'') None ''https://oauth2.googleapis.com/token''
                       ''id'' ''secret'' [''https://www.googleapis.com/auth/gmail.send''])
   \<and> tokens world_no_refresh ''current_user'' = Some stored_no_refresh
   \<and> refresh_token stored_no_refresh = None
   \<and> fst (get_credentials test_env world_no_refresh) =
       Inr (Credentials (Some ''at1'') None ''https://oauth2.googleapis.com/token''
              ''id'' ''secret'' [''https://www.googleapis.com/auth/gmail.send''])"
  by (simp add: get_credentials_def get_credentials_body_def test_env_def
        world_no_refresh_def stored_no_refresh_def)

text \<open>
  C10. When \<open>get_credentials\<close> refreshes an expired credential that has a refresh token,
  the stored dictionary afterwards is the one before with its \<open>token\<close> entry replaced
  by the refreshed access token: \<open>refresh_token\<close>, \<open>token_uri\<close>, \<open>client_id\<close>,
  \<open>client_secret\<close> and \<open>scopes\<close> are as they were.
\<close>

theorem refresh_replaces_only_token:
  assumes "tokens w ''current_user'' = Some td"
    and "c = Credentials (token td) (refresh_token td) (token_uri td) (client_id td)
               (client_secret td) (scopes td)"
    and "\<not> valid env c" and "expired env c" and "truthy (refresh_token td)"
    and "refresh env c = Inr c'"
  shows "\<exists>w' td'. get_credentials env w = (Inr c', w')
           \<and> tokens w' ''current_user'' = Some td'
           \<and> td' = td\<lparr>token := cred_token c'\<rparr>
           \<and> refresh_token td' = refresh_token td
           \<and> token_uri td' = token_uri td
           \<and> client_id td' = client_id td
           \<and> client_secret td' = client_secret td
           \<and> scopes td' = scopes td"
  using get_credentials_body_refreshed [OF assms]
  by (simp add: get_credentials_def)

theorem refresh_replaces_only_token_witness:
  "tokens world_with_refresh ''current_user'' = Some stored_with_refresh
   \<and> \<not> valid test_env (Credentials (Some ''at1'') (Some ''rt1'')
          ''https://oauth2.googleapis.com/token'' ''id'' ''secret''
          [''https://www.googleapis.com/auth/gmail.send''])
   \<and> expired test_env (Credentials (Some ''at1'') (Some ''rt1'')
          ''https://oauth2.googleapis.com/token'' ''id'' ''secret''
          [''https://www.googleapis.com/auth/gmail.send''])
   \<and> truthy (refresh_token stored_with_refresh)
   \<and> (\<exists>w' td'. get_credentials test_env world_with_refresh =
          (Inr (Credentials (Some ''at2'') (Some ''rt2'')
                  ''https://oauth2.googleapis.com/token'' ''id'' ''secret''
                  [''https://www.googleapis.com/auth/gmail.send'']), w')
        \<and> tokens w' ''current_user'' = Some td'
        \<and> token td' = Some ''at2''
        \<and> refresh_token td' = Some ''rt1'')"
proof -
  let ?c = "Credentials (Some ''at1'') (Some ''rt1'')
          ''https://oauth2.googleapis.com/token'' ''id'' ''secret''
          [''https://www.googleapis.com/auth/gmail.send'']"
  let ?c' = "Credentials (Some ''at2'') (Some ''rt2'')
          ''https://oauth2.googleapis.com/token'' ''id'' ''secret''
          [''https://www.googleapis.com/auth/gmail.send'']"
  have h1: "tokens world_with_refresh ''current_user'' = Some stored_with_refresh"
    by (simp add: world_with_refresh_def)
  have h2: "?c = Credentials (token stored_with_refresh) (refresh_token stored_with_refresh)
      (token_uri stored_with_refresh) (client_id stored_with_refresh)
      (client_secret stored_with_refresh) (scopes stored_with_refresh)"
    by (simp add: stored_with_refresh_def stored_no_refresh_def)
  have h3: "\<not> valid test_env ?c" by (simp add: test_env_def)
  have h4: "expired test_env ?c" by (simp add: test_env_def)
  have h5: "truthy (refresh_token stored_with_refresh)"
    by (simp add: stored_with_refresh_def)
  have h6: "refresh test_env ?c = Inr ?c'" by (simp add: test_env_def)
  from refresh_replaces_only_token [OF h1 h2 h3 h4 h5 h6]
  obtain w' td' where "get_credentials test_env world_with_refresh = (Inr ?c', w')"
    and "tokens w' ''current_user'' = Some td'"
    and "td' = stored_with_refresh\<lparr>token := cred_token ?c'\<rparr>"
    by blast
  then have "get_credentials test_env world_with_refresh = (Inr ?c', w')
     \<and> tokens w' ''current_user'' = Some td' \<and> token td' = Some ''at2''
     \<and> refresh_token td' = Some ''rt1''"
    by (simp add: stored_with_refresh_def)
  then show ?thesis using h1 h3 h4 h5 by blast
qed

section \<open>The endpoints\<close>

text \<open>
  C8. With no credential stored, \<open>GET /api/verify-token\<close> answers with status 401. The
  state is returned as it was, so no call to the remote provider was made.
\<close>

theorem verify_token_without_credential:
  assumes "tokens w ''current_user'' = None"
  shows "verify_token env w =
           (Inl (HTTPException 401
                  (''Invalid credentials: '' @
                     http_exception_str env 401 ''No credentials found'')), w)"
  using assms
  by (simp add: verify_token_def get_credentials_def get_credentials_body_def)

theorem verify_token_without_credential_witness:
  "tokens empty_world ''current_user'' = None
   \<and> verify_token test_env empty_world =
       (Inl (HTTPException 401 ''Invalid credentials: No credentials found''), empty_world)"
proof -
  have h: "tokens empty_world ''current_user'' = None" by (simp add: empty_world_def)
  show ?thesis
    using h verify_token_without_credential [OF h, of test_env]
    by (simp add: test_env_def)
qed

lemma callback_route:
  "handle_get env ''/auth/google/callback'' code w = google_auth_callback env code w"
  by (simp add: handle_get_def code_routes_def)

text \<open>
  C3. A request to \<open>GET /auth/google/callback\<close> is served by the first handler
  registered for the path. When the exchange of the code succeeds, the credential is
  stored under \<open>current_user\<close> and the body holds \<open>access_token\<close> and \<open>refresh_token\<close>;
  when it raises, the answer is status 400 with a detail that ends with the text of the
  exception, and the store is unchanged.
\<close>

theorem callback_stores_or_400:
  "(\<forall>c. fetch_token env code = Inr c \<longrightarrow>
      (\<exists>w'. handle_get env ''/auth/google/callback'' code w =
               (Inr [(''access_token'', cred_token c),
                     (''refresh_token'', cred_refresh_token c)], w')
           \<and> tokens w' ''current_user'' =
               Some \<lparr>token = cred_token c, refresh_token = cred_refresh_token c,
                     token_uri = cred_token_uri c, client_id = cred_client_id c,
                     client_secret = cred_client_secret c, scopes = cred_scopes c\<rparr>))
   \<and> (\<forall>e. fetch_token env code = Inl e \<longrightarrow>
        (\<exists>w'. handle_get env ''/auth/google/callback'' code w =
                 (Inl (HTTPException 400 (''Error during authentication: '' @ str_of env e)), w')
             \<and> tokens w' = tokens w))"
  by (simp add: callback_route google_auth_callback_def Let_def)

theorem callback_stores_or_400_witness:
  "fetch_token test_env ''good'' =
     Inr (Credentials (Some ''at1'') (Some ''rt1'') ''https://oauth2.googleapis.com/token''
            ''id'' ''secret'' [''https://www.googleapis.com/auth/gmail.send''])
   \<and> fst (handle_get test_env ''/auth/google/callback'' ''good'' empty_world) =
       Inr [(''access_token'', Some ''at1''), (''refresh_token'', Some ''rt1'')]
   \<and> tokens (snd (handle_get test_env ''/auth/google/callback'' ''good'' empty_world))
         ''current_user'' = Some stored_with_refresh
   \<and> fetch_token test_env ''bad'' = Inl (PyException ''invalid_grant'')
   \<and> fst (handle_get test_env ''/auth/google/callback'' ''bad'' empty_world) =
       Inl (HTTPException 400 ''Error during authentication: invalid_grant'')"
proof -
  let ?c = "Credentials (Some ''at1'') (Some ''rt1'') ''https://oauth2.googleapis.com/token''
            ''id'' ''secret'' [''https://www.googleapis.com/auth/gmail.send'']"
  have g: "fetch_token test_env ''good'' = Inr ?c" by (simp add: test_env_def)
  have b: "fetch_token test_env ''bad'' = Inl (PyException ''invalid_grant'')"
    by (simp add: test_env_def)
  from callback_stores_or_400 [of test_env "''good''" empty_world] g
  obtain w' where "handle_get test_env ''/auth/google/callback'' ''good'' empty_world =
               (Inr [(''access_token'', cred_token ?c),
                     (''refresh_token'', cred_refresh_token ?c)], w')"
    and "tokens w' ''current_user'' =
               Some \<lparr>token = cred_token ?c, refresh_token = cred_refresh_token ?c,
                     token_uri = cred_token_uri ?c, client_id = cred_client_id ?c,
                     client_secret = cred_client_secret ?c, scopes = cred_scopes ?c\<rparr>"
    by blast
  then have 1: "fst (handle_get test_env ''/auth/google/callback'' ''good'' empty_world) =
       Inr [(''access_token'', Some ''at1''), (''refresh_token'', Some ''rt1'')]
   \<and> tokens (snd (handle_get test_env ''/auth/google/callback'' ''good'' empty_world))
         ''current_user'' = Some stored_with_refresh"
    by (simp add: stored_with_refresh_def stored_no_refresh_def)
  from callback_stores_or_400 [of test_env "''bad''" empty_world] b
  obtain w'' where "handle_get test_env ''/auth/google/callback'' ''bad'' empty_world =
     (Inl (HTTPException 400
        (''Error during authentication: '' @ str_of test_env (PyException ''invalid_grant''))), w'')"
    by blast
  then have 2: "fst (handle_get test_env ''/auth/google/callback'' ''bad'' empty_world) =
       Inl (HTTPException 400 ''Error during authentication: invalid_grant'')"
    by simp
  show ?thesis using g b 1 2 by blast
qed

section \<open>Sending\<close>

lemma send_email_built:
  assumes "encode_message env to subject body = Inr raw"
  shows "send_email env to subject body w =
          (case messages_send env raw of
             Inl e \<Rightarrow> Inl (PyException (''Error sending email: '' @ str_of env e))
           | Inr r \<Rightarrow> Inr \<lparr>message_id = sent_id r, status = ''sent''\<rparr>,
           w\<lparr>calls := calls w @ [MessagesSend raw]\<rparr>)"
  using assms by (simp add: send_email_def Let_def split: sum.splits)

lemma send_email_endpoint_resolved:
  assumes "get_credentials env w = (Inr c, w')" and "build env c = Inr u"
    and "encode_message env (req_to request) (req_subject request) (req_body request) = Inr raw"
  shows "send_email_endpoint env request w =
          (case messages_send env raw of
             Inl e \<Rightarrow> Inl (HTTPException 500
                         (''Error sending email: '' @ ''Error sending email: '' @ str_of env e))
           | Inr r \<Rightarrow> Inr \<lparr>message_id = sent_id r, status = ''sent''\<rparr>,
           w'\<lparr>calls := calls w' @ [MessagesSend raw]\<rparr>)"
  using assms
  by (simp add: send_email_endpoint_def send_email_built [OF assms(3)] split: sum.splits)

text \<open>
  C9, as the code has it. \<open>send_email\<close> makes no check of the recipient: whenever the
  library builds the message for an empty recipient, the raw message is handed to the
  remote send call, the call is recorded, and \<open>send_email\<close> fails only if the remote
  send fails; otherwise it returns the identifier with the status \<open>sent\<close>. The endpoint
  passes the empty recipient of the request on in the same way.
\<close>

theorem send_email_empty_recipient_forwarded:
  assumes "encode_message env [] subject body = Inr raw"
  shows "snd (send_email env [] subject body w) = w\<lparr>calls := calls w @ [MessagesSend raw]\<rparr>
    \<and> (\<forall>e. fst (send_email env [] subject body w) = Inl e \<longrightarrow>
          (\<exists>e'. messages_send env raw = Inl e'
              \<and> e = PyException (''Error sending email: '' @ str_of env e')))
    \<and> (\<forall>r. messages_send env raw = Inr r \<longrightarrow>
          fst (send_email env [] subject body w) =
            Inr \<lparr>message_id = sent_id r, status = ''sent''\<rparr>)
    \<and> (\<forall>c w' u r. get_credentials env w = (Inr c, w') \<and> build env c = Inr u
            \<and> messages_send env raw = Inr r \<longrightarrow>
          send_email_endpoint env \<lparr>req_to = [], req_subject = subject, req_body = body\<rparr> w =
            (Inr \<lparr>message_id = sent_id r, status = ''sent''\<rparr>,
             w'\<lparr>calls := calls w' @ [MessagesSend raw]\<rparr>))"
proof (intro conjI allI impI)
  show "snd (send_email env [] subject body w) = w\<lparr>calls := calls w @ [MessagesSend raw]\<rparr>"
    by (simp add: send_email_built [OF assms])
next
  fix e assume "fst (send_email env [] subject body w) = Inl e"
  then show "\<exists>e'. messages_send env raw = Inl e'
              \<and> e = PyException (''Error sending email: '' @ str_of env e')"
    by (auto simp: send_email_built [OF assms] split: sum.splits)
next
  fix r assume "messages_send env raw = Inr r"
  then show "fst (send_email env [] subject body w) =
            Inr \<lparr>message_id = sent_id r, status = ''sent''\<rparr>"
    by (simp add: send_email_built [OF assms])
next
  fix c w' u r
  assume a: "get_credentials env w = (Inr c, w') \<and> build env c = Inr u
            \<and> messages_send env raw = Inr r"
  have "encode_message env (req_to \<lparr>req_to = [], req_subject = subject, req_body = body\<rparr>)
          (req_subject \<lparr>req_to = [], req_subject = subject, req_body = body\<rparr>)
          (req_body \<lparr>req_to = [], req_subject = subject, req_body = body\<rparr>) = Inr raw"
    using assms by simp
  from send_email_endpoint_resolved [OF _ _ this, of w c w' u] a
  show "send_email_endpoint env \<lparr>req_to = [], req_subject = subject, req_body = body\<rparr> w =
            (Inr \<lparr>message_id = sent_id r, status = ''sent''\<rparr>,
             w'\<lparr>calls := calls w' @ [MessagesSend raw]\<rparr>)"
    by simp
qed

theorem send_email_empty_recipient_forwarded_witness:
  "encode_message test_env [] ''s'' ''b'' = Inr ''|s|b''
   \<and> send_email test_env [] ''s'' ''b'' empty_world =
       (Inr \<lparr>message_id = ''s1'', status = ''sent''\<rparr>,
        empty_world\<lparr>calls := [MessagesSend ''|s|b'']\<rparr>)
   \<and> send_email_endpoint test_env \<lparr>req_to = [], req_subject = ''s'', req_body = ''b''\<rparr>
         world_no_refresh =
       (Inr \<lparr>message_id = ''s1'', status = ''sent''\<rparr>,
        world_no_refresh\<lparr>calls := [MessagesSend ''|s|b'']\<rparr>)"
proof -
  let ?c = "Credentials (Some ''at1'') None ''https://oauth2.googleapis.com/token'' ''id''
               ''secret'' [''https://www.googleapis.com/auth/gmail.send'']"
  have h: "encode_message test_env [] ''s'' ''b'' = Inr ''|s|b''"
    by (simp add: test_env_def)
  have r: "messages_send test_env ''|s|b'' = Inr \<lparr>sent_id = ''s1''\<rparr>"
    by (simp add: test_env_def)
  note inst = send_email_empty_recipient_forwarded [OF h]
  from inst [of empty_world] r
  have "snd (send_email test_env [] ''s'' ''b'' empty_world) =
          empty_world\<lparr>calls := calls empty_world @ [MessagesSend ''|s|b'']\<rparr>"
    and "fst (send_email test_env [] ''s'' ''b'' empty_world) =
          Inr \<lparr>message_id = sent_id \<lparr>sent_id = ''s1''\<rparr>, status = ''sent''\<rparr>"
    by blast+
  then have 1: "send_email test_env [] ''s'' ''b'' empty_world =
       (Inr \<lparr>message_id = ''s1'', status = ''sent''\<rparr>,
        empty_world\<lparr>calls := [MessagesSend ''|s|b'']\<rparr>)"
    by (simp add: prod_eq_iff empty_world_def)
  have g: "get_credentials test_env world_no_refresh = (Inr ?c, world_no_refresh)"
    by (simp add: get_credentials_def get_credentials_body_def test_env_def
          world_no_refresh_def stored_no_refresh_def)
  have b: "build test_env ?c = Inr ()" by (simp add: test_env_def)
  from inst [of world_no_refresh] g b r
  have "send_email_endpoint test_env \<lparr>req_to = [], req_subject = ''s'', req_body = ''b''\<rparr>
         world_no_refresh =
       (Inr \<lparr>message_id = sent_id \<lparr>sent_id = ''s1''\<rparr>, status = ''sent''\<rparr>,
        world_no_refresh\<lparr>calls := calls world_no_refresh @ [MessagesSend ''|s|b'']\<rparr>)"
    by blast
  then have 2: "send_email_endpoint test_env
         \<lparr>req_to = [], req_subject = ''s'', req_body = ''b''\<rparr> world_no_refresh =
       (Inr \<lparr>message_id = ''s1'', status = ''sent''\<rparr>,
        world_no_refresh\<lparr>calls := [MessagesSend ''|s|b'']\<rparr>)"
    by (simp add: world_no_refresh_def)
  from h 1 2 show ?thesis by blast
qed

text \<open>
  C9, as the spec states it for every subject and body, fails: building the message is
  inside the \<open>try\<close> of \<open>send_email\<close>, and for the subject below it raises. The call
  fails although no remote send has failed, and nothing is forwarded.
\<close>

theorem send_email_local_failure_counterexample:
  "send_email test_env [] subject_with_header ''b'' empty_world =
     (Inl (PyException
        ''Error sending email: header value appears to contain an embedded header''),
      empty_world)
   \<and> calls empty_world = []"
  by (simp add: send_email_def test_env_def subject_with_header_def empty_world_def)

section \<open>The metrics report\<close>

subsection \<open>Dictionaries\<close>

lemma in_dict_set: "(a, b) \<in> set (dict_set d k v) \<Longrightarrow> a = k \<or> (a, b) \<in> set d"
  by (induction d) (auto split: if_splits)

lemma keys_dict_set: "fst ` set (dict_set d k v) \<subseteq> insert k (fst ` set d)"
  using in_dict_set by fastforce

subsection \<open>The steps of the loop body\<close>

lemma total_count_sender: "total_emails (count_sender s m) = total_emails m"
  by (simp add: count_sender_def split: option.splits)

lemma total_count_subject: "total_emails (count_subject s m) = total_emails m"
  by (simp add: count_subject_def split: option.splits)

lemma total_count_hour: "total_emails (count_hour env d m) = total_emails m"
  by (simp add: count_hour_def split: option.splits)

lemma total_count_size: "total_emails (count_size msg m) = total_emails m"
  by (simp add: count_size_def Let_def)

lemma hours_count_sender: "time_distribution (count_sender s m) = time_distribution m"
  by (simp add: count_sender_def split: option.splits)

lemma hours_count_subject: "time_distribution (count_subject s m) = time_distribution m"
  by (simp add: count_subject_def split: option.splits)

lemma hours_count_size: "time_distribution (count_size msg m) = time_distribution m"
  by (simp add: count_size_def Let_def)

lemma total_process_message: "total_emails (process_message env m msg) = total_emails m"
  by (simp add: process_message_def total_count_sender total_count_subject
        total_count_hour total_count_size split: prod.splits)

lemma hours_ok_count_hour:
  assumes "strptime_contract env" and "hours_ok m"
  shows "hours_ok (count_hour env d m)"
proof (cases "\<exists>x dt. d = Some x \<and> x \<noteq> [] \<and>
                 strptime env x ''%a, %d %b %Y %H:%M:%S %z'' = Some dt")
  case True
  then obtain x dt where d: "d = Some x" "x \<noteq> []"
    and p: "strptime env x ''%a, %d %b %Y %H:%M:%S %z'' = Some dt"
    by blast
  from p assms(1) have h: "0 \<le> hour dt \<and> hour dt \<le> 23"
    by (simp add: strptime_contract_def)
  have "time_distribution (count_hour env d m) =
          dict_set (time_distribution m) (hour dt)
            (dict_get (time_distribution m) (hour dt) 0 + 1)"
    by (simp add: count_hour_def d p)
  with keys_dict_set [of "time_distribution m" "hour dt"] h assms(2)
  show ?thesis unfolding hours_ok_def by fastforce
next
  case False
  then have "count_hour env d m = m"
    by (auto simp: count_hour_def split: option.splits)
  with assms(2) show ?thesis by simp
qed

lemma hours_ok_process_message:
  assumes "strptime_contract env" and "hours_ok m"
  shows "hours_ok (process_message env m msg)"
proof -
  obtain d s t where sc: "fold scan_header (headers msg) (None, None, None) = (d, s, t)"
    by (metis prod_cases3)
  have "hours_ok (count_subject t (count_sender s m))"
    using assms(2) by (simp add: hours_ok_def hours_count_sender hours_count_subject)
  then have "hours_ok (count_hour env d (count_subject t (count_sender s m)))"
    using assms(1) by (rule hours_ok_count_hour [rotated])
  then show ?thesis
    by (simp add: process_message_def sc hours_ok_def hours_count_size)
qed

lemma unparsed_date_process_message:
  assumes "fold scan_header (headers msg) (None, None, None) = (Some d, s, t)"
    and "strptime env d ''%a, %d %b %Y %H:%M:%S %z'' = None"
  shows "time_distribution (process_message env m msg) = time_distribution m"
  using assms
  by (simp add: process_message_def hours_count_size hours_count_sender hours_count_subject
        count_hour_def)

subsection \<open>The loop\<close>

lemma total_process_messages:
  "process_messages env ids m = Inr m' \<Longrightarrow> total_emails m' = total_emails m"
  by (induction ids arbitrary: m) (auto simp: total_process_message split: sum.splits)

lemma hours_ok_process_messages:
  "strptime_contract env \<Longrightarrow> hours_ok m \<Longrightarrow> process_messages env ids m = Inr m'
     \<Longrightarrow> hours_ok m'"
proof (induction ids arbitrary: m)
  case Nil
  then show ?case by simp
next
  case (Cons i ids)
  from Cons.prems(3) obtain msg where g: "messages_get env i = Inr msg"
    and r: "process_messages env ids (process_message env m msg) = Inr m'"
    by (auto split: sum.splits)
  have "hours_ok (process_message env m msg)"
    using Cons.prems(1,2) by (rule hours_ok_process_message)
  with Cons.IH Cons.prems(1) r show ?case by blast
qed

lemma process_messages_returns:
  "(\<forall>i \<in> set ids. \<exists>msg. messages_get env i = Inr msg)
     \<Longrightarrow> \<exists>m'. process_messages env ids m = Inr m'"
  by (induction ids arbitrary: m) auto

lemma get_email_metrics_Inr:
  assumes "get_email_metrics env days = Inr r"
  obtains q results where "window_query env days = Inr q"
    and "messages_list env q 500 = Inr results"
    and "process_messages env (listed results)
           \<lparr>total_emails = int (length (listed results)), senders = [], subjects = [],
            time_distribution = [],
            email_size_distribution = \<lparr>small = 0, medium = 0, large = 0\<rparr>\<rparr> = Inr r"
  using assms
  by (auto simp: get_email_metrics_def get_email_metrics_body_def Let_def listed_def
      split: sum.splits)

text \<open>
  C6. \<open>total_emails\<close> of a report returned by \<open>get_email_metrics\<close> is the number of
  identifiers in the result of the one list call, which asks for at most 500: when the
  provider answers with no more than 500 identifiers, \<open>total_emails\<close> is at most 500.
  A report is returned whenever every listed message can be fetched.
\<close>

theorem total_emails_is_number_listed:
  assumes "window_query env days = Inr q" and "messages_list env q 500 = Inr results"
  shows "(\<forall>r. get_email_metrics env days = Inr r \<longrightarrow>
            total_emails r = int (length (listed results))
          \<and> (length (listed results) \<le> 500 \<longrightarrow> total_emails r \<le> 500))
       \<and> ((\<forall>i \<in> set (listed results). \<exists>msg. messages_get env i = Inr msg) \<longrightarrow>
            (\<exists>r. get_email_metrics env days = Inr r))"
proof (intro conjI allI impI)
  fix r assume r: "get_email_metrics env days = Inr r"
  then show t: "total_emails r = int (length (listed results))"
    using assms by (elim get_email_metrics_Inr) (auto dest: total_process_messages)
  assume "length (listed results) \<le> 500"
  with t show "total_emails r \<le> 500" by simp
next
  assume "\<forall>i \<in> set (listed results). \<exists>msg. messages_get env i = Inr msg"
  from process_messages_returns [OF this]
  obtain r where "process_messages env (listed results)
           \<lparr>total_emails = int (length (listed results)), senders = [], subjects = [],
            time_distribution = [],
            email_size_distribution = \<lparr>small = 0, medium = 0, large = 0\<rparr>\<rparr> = Inr r"
    by blast
  then have "get_email_metrics env days = Inr r"
    using assms
    by (simp add: get_email_metrics_def get_email_metrics_body_def Let_def listed_def)
  then show "\<exists>r. get_email_metrics env days = Inr r" ..
qed

lemma test_env_metrics:
  "get_email_metrics test_env 30 =
     Inr \<lparr>total_emails = 4,
          senders = [(''ann@example.org'', 1), (''bob@example.org'', 2)],
          subjects = [(''Hello'', 1), (''Re: Hello'', 1), (''RE: Hello'', 1),
                      (''no sender'', 1)],
          time_distribution = [(10, 1), (23, 1)],
          email_size_distribution = \<lparr>small = 2, medium = 0, large = 2\<rparr>\<rparr>"
  by (simp add: get_email_metrics_def get_email_metrics_body_def test_env_def
        test_message_def test_strptime_def process_message_def count_sender_def
        count_subject_def count_hour_def count_size_def Let_def)

theorem total_emails_is_number_listed_witness:
  "window_query test_env 30 = Inr ''after:2024/01/01 before:2024/01/31''
   \<and> messages_list test_env ''after:2024/01/01 before:2024/01/31'' 500 =
        Inr \<lparr>messages = Some [''m1'', ''m2'', ''m3'', ''m4'']\<rparr>
   \<and> (\<exists>r. get_email_metrics test_env 30 = Inr r \<and> total_emails r = 4 \<and> total_emails r \<le> 500)"
proof -
  have h1: "window_query test_env 30 = Inr ''after:2024/01/01 before:2024/01/31''"
    by (simp add: test_env_def)
  have h2: "messages_list test_env ''after:2024/01/01 before:2024/01/31'' 500 =
        Inr \<lparr>messages = Some [''m1'', ''m2'', ''m3'', ''m4'']\<rparr>"
    by (simp add: test_env_def)
  have l: "listed \<lparr>messages = Some [''m1'', ''m2'', ''m3'', ''m4'']\<rparr> =
             [''m1'', ''m2'', ''m3'', ''m4'']"
    by (simp add: listed_def)
  have g: "\<forall>i \<in> set [''m1'', ''m2'', ''m3'', ''m4'']. \<exists>msg. messages_get test_env i = Inr msg"
    by (simp add: test_env_def test_message_def)
  from total_emails_is_number_listed [OF h1 h2] l g
  have "\<exists>r. get_email_metrics test_env 30 = Inr r \<and> total_emails r = 4 \<and> total_emails r \<le> 500"
    by fastforce
  with h1 h2 show ?thesis by blast
qed

subsection \<open>Top senders\<close>

lemma sorted_reverse_descending:
  "sorted_wrt (\<lambda>a b. key b \<le> key a) (sorted_reverse key xs)"
proof -
  have "sorted (map key (sort_key key (rev xs)))" by (rule sorted_sort_key)
  then have "sorted_wrt (\<lambda>a b. key a \<le> key b) (sort_key key (rev xs))"
    by (simp add: sorted_map)
  then show ?thesis by (simp add: sorted_reverse_def sorted_wrt_rev)
qed

lemma length_sorted_reverse: "length (sorted_reverse key xs) = length xs"
  by (simp add: sorted_reverse_def)

text \<open>
  C7. For every \<open>days\<close> for which the metrics are computed, \<open>get_top_senders\<close> returns
  at most 10 entries, in descending order of \<open>count\<close>.
\<close>

theorem top_senders_at_most_ten_descending:
  assumes "get_email_metrics env days = Inr m"
  shows "\<exists>r. get_top_senders env days = Inr r
           \<and> length r \<le> 10
           \<and> length r = min 10 (length (senders m))
           \<and> sorted_wrt (\<lambda>a b. count b \<le> count a) r"
proof -
  let ?top = "take 10 (sorted_reverse snd (senders m))"
  let ?r = "map (\<lambda>(s, c). \<lparr>sender = s, count = c\<rparr>) ?top"
  have r: "get_top_senders env days = Inr ?r"
    by (simp add: get_top_senders_def assms)
  have "sorted_wrt (\<lambda>a b. snd b \<le> snd a) ?top"
    by (rule sorted_wrt_take) (rule sorted_reverse_descending)
  then have "sorted_wrt (\<lambda>a b. count b \<le> count a) ?r"
    by (simp add: sorted_wrt_map case_prod_unfold)
  moreover have "length ?r = min 10 (length (senders m))"
    by (simp add: length_sorted_reverse min.commute)
  ultimately show ?thesis using r by simp
qed

theorem top_senders_at_most_ten_descending_witness:
  "(\<exists>m. get_email_metrics test_env 30 = Inr m)
   \<and> (\<exists>r. get_top_senders test_env 30 = Inr r
          \<and> length r \<le> 10
          \<and> sorted_wrt (\<lambda>a b. count b \<le> count a) r
          \<and> r = [\<lparr>sender = ''bob@example.org'', count = 2\<rparr>,
                 \<lparr>sender = ''ann@example.org'', count = 1\<rparr>])"
proof -
  let ?m = "\<lparr>total_emails = 4,
          senders = [(''ann@example.org'', 1), (''bob@example.org'', 2)],
          subjects = [(''Hello'', 1), (''Re: Hello'', 1), (''RE: Hello'', 1),
                      (''no sender'', 1)],
          time_distribution = [(10, 1), (23, 1)],
          email_size_distribution = \<lparr>small = 2, medium = 0, large = 2\<rparr>\<rparr>"
  have m: "get_email_metrics test_env 30 = Inr ?m" by (rule test_env_metrics)
  from top_senders_at_most_ten_descending [OF m]
  obtain r where r: "get_top_senders test_env 30 = Inr r" and l: "length r \<le> 10"
    and s: "sorted_wrt (\<lambda>a b. count b \<le> count a) r"
    by blast
  have "get_top_senders test_env 30 =
       Inr [\<lparr>sender = ''bob@example.org'', count = 2\<rparr>,
            \<lparr>sender = ''ann@example.org'', count = 1\<rparr>]"
    by (simp add: get_top_senders_def m sorted_reverse_def)
  with r have "r = [\<lparr>sender = ''bob@example.org'', count = 2\<rparr>,
                    \<lparr>sender = ''ann@example.org'', count = 1\<rparr>]"
    by simp
  with r l s m show ?thesis by blast
qed

subsection \<open>The time distribution\<close>

text \<open>
  C4. With the library's \<open>hour\<close> in \<open>range(24)\<close>, every key of \<open>time_distribution\<close> in a
  report of \<open>get_email_metrics\<close> is between 0 and 23. A message whose \<open>Date\<close> header does
  not parse leaves \<open>time_distribution\<close> and \<open>total_emails\<close> as they are, and the loop
  goes on with the next identifier: no error comes out of it.
\<close>

theorem time_distribution_keys_and_unparsed_dates:
  "(strptime_contract env \<longrightarrow>
      (\<forall>r. get_email_metrics env days = Inr r \<longrightarrow> hours_ok r))
   \<and> (\<forall>i msg d s t ids m.
        messages_get env i = Inr msg
        \<and> fold scan_header (headers msg) (None, None, None) = (Some d, s, t)
        \<and> strptime env d ''%a, %d %b %Y %H:%M:%S %z'' = None \<longrightarrow>
          time_distribution (process_message env m msg) = time_distribution m
        \<and> total_emails (process_message env m msg) = total_emails m
        \<and> process_messages env (i # ids) m =
            process_messages env ids (process_message env m msg))"
proof (intro conjI allI impI)
  fix r assume c: "strptime_contract env" and r: "get_email_metrics env days = Inr r"
  from r obtain q results where "process_messages env (listed results)
           \<lparr>total_emails = int (length (listed results)), senders = [], subjects = [],
            time_distribution = [],
            email_size_distribution = \<lparr>small = 0, medium = 0, large = 0\<rparr>\<rparr> = Inr r"
    by (rule get_email_metrics_Inr)
  then show "hours_ok r"
    by (rule hours_ok_process_messages [OF c, rotated]) (simp add: hours_ok_def)
next
  fix i msg d s t ids m
  assume a: "messages_get env i = Inr msg
        \<and> fold scan_header (headers msg) (None, None, None) = (Some d, s, t)
        \<and> strptime env d ''%a, %d %b %Y %H:%M:%S %z'' = None"
  then show "time_distribution (process_message env m msg) = time_distribution m"
    by (simp add: unparsed_date_process_message)
  show "total_emails (process_message env m msg) = total_emails m"
    by (rule total_process_message)
  from a show "process_messages env (i # ids) m =
            process_messages env ids (process_message env m msg)"
    by simp
qed

theorem time_distribution_keys_and_unparsed_dates_witness:
  "strptime_contract test_env
   \<and> (\<exists>r. get_email_metrics test_env 30 = Inr r \<and> hours_ok r
          \<and> time_distribution r = [(10, 1), (23, 1)] \<and> total_emails r = 4)
   \<and> messages_get test_env ''m2'' =
       Inr \<lparr>headers = [(''From'', ''bob@example.org''), (''Subject'', ''Re: Hello''),
                        (''Date'', ''2024-01-01 11:00'')],
             sizeEstimate = Some 1048575\<rparr>
   \<and> strptime test_env ''2024-01-01 11:00'' ''%a, %d %b %Y %H:%M:%S %z'' = None
   \<and> (\<forall>m. time_distribution (process_message test_env m
               \<lparr>headers = [(''From'', ''bob@example.org''), (''Subject'', ''Re: Hello''),
                            (''Date'', ''2024-01-01 11:00'')],
                 sizeEstimate = Some 1048575\<rparr>) = time_distribution m)"
proof -
  let ?msg = "\<lparr>headers = [(''From'', ''bob@example.org''), (''Subject'', ''Re: Hello''),
                        (''Date'', ''2024-01-01 11:00'')],
             sizeEstimate = Some 1048575\<rparr>"
  let ?m = "\<lparr>total_emails = 4,
          senders = [(''ann@example.org'', 1), (''bob@example.org'', 2)],
          subjects = [(''Hello'', 1), (''Re: Hello'', 1), (''RE: Hello'', 1),
                      (''no sender'', 1)],
          time_distribution = [(10, 1), (23, 1)],
          email_size_distribution = \<lparr>small = 2, medium = 0, large = 2\<rparr>\<rparr>"
  note inst = time_distribution_keys_and_unparsed_dates [of test_env 30]
  have c: "strptime_contract test_env"
    by (simp add: strptime_contract_def test_env_def test_strptime_def)
  have m: "get_email_metrics test_env 30 = Inr ?m" by (rule test_env_metrics)
  from inst c m have ok: "hours_ok ?m" by blast
  have g: "messages_get test_env ''m2'' = Inr ?msg"
    by (simp add: test_env_def test_message_def)
  have f: "fold scan_header (headers ?msg) (None, None, None) =
             (Some ''2024-01-01 11:00'', Some ''bob@example.org'', Some ''Re: Hello'')"
    by simp
  have p: "strptime test_env ''2024-01-01 11:00'' ''%a, %d %b %Y %H:%M:%S %z'' = None"
    by (simp add: test_env_def test_strptime_def)
  from inst g f p
  have u: "\<forall>m. time_distribution (process_message test_env m ?msg) = time_distribution m"
    by blast
  from m ok have "\<exists>r. get_email_metrics test_env 30 = Inr r \<and> hours_ok r
          \<and> time_distribution r = [(10, 1), (23, 1)] \<and> total_emails r = 4"
    by simp
  with c g p u show ?thesis by blast
qed

subsection \<open>The size buckets\<close>

text \<open>
  C2. The comments of the source put a message of exactly 5 MiB into \<open>medium\<close>
  (\<open>1MB - 5MB\<close>) and only larger ones into \<open>large\<close> (\<open>> 5MB\<close>). The comparison of line 78
  is strict, so a size estimate of 5,242,880 is counted as \<open>large\<close>; 5,242,879 is the
  last one counted as \<open>medium\<close>. On the test mailbox, whose first message has that size,
  \<open>medium\<close> stays 0.
\<close>

theorem size_5_MiB_is_counted_large:
  "email_size_distribution (count_size (msg\<lparr>sizeEstimate := Some 5242880\<rparr>) m) =
     (email_size_distribution m)\<lparr>large := large (email_size_distribution m) + 1\<rparr>
   \<and> email_size_distribution (count_size (msg\<lparr>sizeEstimate := Some 5242879\<rparr>) m) =
     (email_size_distribution m)\<lparr>medium := medium (email_size_distribution m) + 1\<rparr>
   \<and> (\<exists>r. get_email_metrics test_env 30 = Inr r
          \<and> medium (email_size_distribution r) = 0
          \<and> large (email_size_distribution r) = 2)"
  by (simp add: count_size_def Let_def test_env_metrics)

section \<open>Replying\<close>

lemma reply_header_other:
  "\<forall>h \<in> set hs. fst h \<noteq> ''Subject''
     \<Longrightarrow> fst (snd (fold reply_header hs acc)) = fst (snd acc)"
proof (induction hs arbitrary: acc)
  case Nil
  then show ?case by simp
next
  case (Cons h hs)
  obtain name val where h: "h = (name, val)" by (cases h)
  obtain to subject orig where acc: "acc = (to, subject, orig)" by (cases acc)
  from Cons.prems have "name \<noteq> ''Subject''" and "\<forall>h \<in> set hs. fst h \<noteq> ''Subject''"
    by (simp_all add: h)
  with Cons.IH show ?case by (simp add: h acc)
qed

lemma reply_header_subject:
  "fst (snd (reply_header (''Subject'', s) acc)) = Some (expected_reply_subject s)"
  by (cases acc) (simp add: expected_reply_subject_def)

lemma reply_subject_of_last:
  assumes "\<forall>h \<in> set post. fst h \<noteq> ''Subject''"
  shows "fst (snd (fold reply_header (pre @ (''Subject'', s) # post) acc)) =
           Some (expected_reply_subject s)"
  by (simp add: reply_header_other [OF assms] reply_header_subject)

lemma expected_reply_subject_nonempty: "expected_reply_subject s \<noteq> []"
  by (auto simp: expected_reply_subject_def startswith_def)

text \<open>
  C5. For an original message whose last \<open>Subject\<close> header is \<open>s\<close> and whose recipient
  is found, \<open>reply_to_email\<close> sends with the subject \<open>s\<close> prefixed with \<open>Re: \<close>, unless
  \<open>s\<close> already starts with that literal, compared case-sensitively; then \<open>s\<close> is kept.
  \<open>Hello\<close> gives \<open>Re: Hello\<close>, \<open>Re: Hello\<close> stays, and \<open>RE: Hello\<close> gives
  \<open>Re: RE: Hello\<close>.
\<close>

theorem reply_subject_is_prefixed_once:
  assumes "messages_get env i = Inr original"
    and "headers original = pre @ (''Subject'', s) # post"
    and "\<forall>h \<in> set post. fst h \<noteq> ''Subject''"
    and "fst (fold reply_header (headers original) (None, None, None)) = Some to"
    and "to \<noteq> []"
  shows "reply_to_email_body env i reply_body w =
           send_email env to (if startswith s ''Re: '' then s else ''Re: '' @ s) reply_body
             (w\<lparr>calls := calls w @ [MessagesGet i]\<rparr>)
       \<and> fst (snd (fold reply_header [(''Subject'', ''Hello'')] (None, None, None))) =
           Some ''Re: Hello''
       \<and> fst (snd (fold reply_header [(''Subject'', ''Re: Hello'')] (None, None, None))) =
           Some ''Re: Hello''
       \<and> fst (snd (fold reply_header [(''Subject'', ''RE: Hello'')] (None, None, None))) =
           Some ''Re: RE: Hello''"
proof -
  obtain a b c where f: "fold reply_header (headers original) (None, None, None) = (a, b, c)"
    by (metis prod_cases3)
  from assms(4) f have a: "a = Some to" by simp
  from reply_subject_of_last [OF assms(3), of pre s "(None, None, None)"] assms(2) f
  have b: "b = Some (expected_reply_subject s)" by simp
  have "reply_to_email_body env i reply_body w =
          send_email env to (expected_reply_subject s) reply_body
            (w\<lparr>calls := calls w @ [MessagesGet i]\<rparr>)"
    using assms(1,5) expected_reply_subject_nonempty [of s]
    by (simp add: reply_to_email_body_def Let_def f a b)
  then show ?thesis
    by (simp add: expected_reply_subject_def startswith_def)
qed

theorem reply_subject_is_prefixed_once_witness:
  "messages_get test_env ''m3'' =
     Inr \<lparr>headers = [(''From'', ''bob@example.org''), (''Subject'', ''RE: Hello''),
                      (''Date'', ''Tue, 02 Jan 2024 23:59:59 +0100'')],
           sizeEstimate = None\<rparr>
   \<and> fst (''Date'', ''Tue, 02 Jan 2024 23:59:59 +0100'') \<noteq> ''Subject''
   \<and> reply_to_email_body test_env ''m3'' ''hi'' empty_world =
       (Inr \<lparr>message_id = ''s1'', status = ''sent''\<rparr>,
        empty_world\<lparr>calls := [MessagesGet ''m3'',
                                 MessagesSend ''bob@example.org|Re: RE: Hello|hi'']\<rparr>)"
proof -
  let ?orig = "\<lparr>headers = [(''From'', ''bob@example.org''), (''Subject'', ''RE: Hello''),
                      (''Date'', ''Tue, 02 Jan 2024 23:59:59 +0100'')],
           sizeEstimate = None\<rparr>"
  have g: "messages_get test_env ''m3'' = Inr ?orig"
    by (simp add: test_env_def test_message_def)
  have h: "headers ?orig = [(''From'', ''bob@example.org'')] @ (''Subject'', ''RE: Hello'')
             # [(''Date'', ''Tue, 02 Jan 2024 23:59:59 +0100'')]"
    by simp
  have n: "\<forall>h \<in> set [(''Date'', ''Tue, 02 Jan 2024 23:59:59 +0100'')]. fst h \<noteq> ''Subject''"
    by simp
  have t: "fst (fold reply_header (headers ?orig) (None, None, None)) = Some ''bob@example.org''"
    by (simp add: startswith_def)
  have e: "''bob@example.org'' \<noteq> []" by simp
  from reply_subject_is_prefixed_once [OF g h n t e, of "''hi''" empty_world]
  have "reply_to_email_body test_env ''m3'' ''hi'' empty_world =
          send_email test_env ''bob@example.org''
            (if startswith ''RE: Hello'' ''Re: '' then ''RE: Hello'' else ''Re: '' @ ''RE: Hello'')
            ''hi'' (empty_world\<lparr>calls := calls empty_world @ [MessagesGet ''m3'']\<rparr>)"
    by blast
  then have "reply_to_email_body test_env ''m3'' ''hi'' empty_world =
       (Inr \<lparr>message_id = ''s1'', status = ''sent''\<rparr>,
        empty_world\<lparr>calls := [MessagesGet ''m3'',
                                 MessagesSend ''bob@example.org|Re: RE: Hello|hi'']\<rparr>)"
    by (simp add: startswith_def send_email_def test_env_def empty_world_def)
  with g n show ?thesis by simp
qed

end
